theory Spec2Isabelle
  imports Main
begin

section \<open>AuthContext.tsx: the authentication state bridge\<close>

text \<open>
  A shallow embedding of \<^verbatim>\<open>src/contexts/AuthContext.tsx\<close>. The React state
  (\<^verbatim>\<open>session\<close>, \<^verbatim>\<open>user\<close>, \<^verbatim>\<open>isLoading\<close>), the browser's local storage and
  the observable effects (notifications, console output, calls made to the provider,
  timers started) are the fields of one record that every operation receives and
  returns. What the provider and the browser answer is an argument of each operation.
\<close>

subsection \<open>Data\<close>

text \<open>
  \<^verbatim>\<open>User\<close> and \<^verbatim>\<open>Session\<close> are the types of \<^verbatim>\<open>@supabase/supabase-js\<close>. The code reads
  nothing of them but \<^verbatim>\<open>session.user\<close> and \<^verbatim>\<open>session.user.id\<close>. The field
  \<^verbatim>\<open>user: User\<close> of \<^verbatim>\<open>Session\<close> is declared without \<^verbatim>\<open>?\<close> and without
  \<^verbatim>\<open>null\<close>, so it is a plain field here.
\<close>

record User =
  user_id :: string

record Session =
  access_token :: string
  session_user :: User

text \<open>The value caught by a \<^verbatim>\<open>catch\<close> clause; the code reads its \<^verbatim>\<open>message\<close> only.\<close>

datatype err = Err (message: string)

text \<open>
  What awaiting a provider call gives: either the promise resolves to an object
  \<^verbatim>\<open>{ data, error }\<close> (both nullable), or it rejects.
\<close>

datatype 'a response = Resolved "'a option" "err option" | Rejected err

text \<open>
  \<^verbatim>\<open>const { error } = await call; if (error) throw error;\<close> inside a \<^verbatim>\<open>try\<close>:
  the exception that reaches the \<^verbatim>\<open>catch\<close> clause, if any.
\<close>

fun thrown :: "'a response \<Rightarrow> err option" where
  "thrown (Resolved d None) = None"
| "thrown (Resolved d (Some e)) = Some e"
| "thrown (Rejected e) = Some e"

datatype variant = Default | Destructive

record toast =
  title :: string
  description :: string
  variant :: variant

datatype console_entry =
    ConsoleLog string string "string option"
  | ConsoleError string err

text \<open>The rows the orders query selects.\<close>

record order_item =
  item_id :: string
  product_id :: int
  quantity :: int
  price_at_purchase :: int
  item_created_at :: int

record order_row =
  order_id :: string
  status :: string
  created_at :: int
  updated_at :: int
  order_items :: "order_item list"

text \<open>
  A query as the builder \<^verbatim>\<open>supabase.from(t).select(c).order(col, { ascending })\<close>
  assembles it. A filter (\<^verbatim>\<open>.eq\<close>, \<^verbatim>\<open>.match\<close>, ...) would be an entry of
  \<open>filters\<close>.
\<close>

datatype column = Col string | Rel string "string list"

record query =
  table :: string
  columns :: "column list"
  filters :: "(string \<times> string) list"
  order_by :: "(string \<times> bool) option"

definition from_table :: "string \<Rightarrow> query" where
  "from_table t = \<lparr>table = t, columns = [], filters = [], order_by = None\<rparr>"

definition select_columns :: "column list \<Rightarrow> query \<Rightarrow> query" where
  "select_columns cs q = q\<lparr>columns := cs\<rparr>"

definition order_query :: "string \<Rightarrow> bool \<Rightarrow> query \<Rightarrow> query" where
  "order_query col ascending q = q\<lparr>order_by := Some (col, ascending)\<rparr>"

datatype provider_call =
    AuthSignUp string string string
  | AuthSignInWithPassword string string
  | AuthSignOut
  | Query query

text \<open>The argument type of \<^verbatim>\<open>createOrder\<close>.\<close>

record cart_item =
  productId :: int
  cart_quantity :: int
  price :: int

record world =
  session :: "Session option"
  user :: "User option"
  isLoading :: bool
  localStorage :: "string \<rightharpoonup> string"
  toasts :: "toast list"
  console :: "console_entry list"
  calls :: "provider_call list"
  timers :: "nat list"

text \<open>
  \<^verbatim>\<open>useState(null)\<close>, \<^verbatim>\<open>useState(null)\<close>, \<^verbatim>\<open>useState(true)\<close>: the state at mount,
  over whatever the local storage holds.
\<close>

definition mount :: "(string \<rightharpoonup> string) \<Rightarrow> world" where
  "mount ls = \<lparr>session = None, user = None, isLoading = True, localStorage = ls,
     toasts = [], console = [], calls = [], timers = []\<rparr>"

definition show_toast :: "toast \<Rightarrow> world \<Rightarrow> world" where
  "show_toast t w = w\<lparr>toasts := toasts w @ [t]\<rparr>"

definition removeItem :: "string \<Rightarrow> world \<Rightarrow> world" where
  "removeItem k w = w\<lparr>localStorage := (localStorage w)(k := None)\<rparr>"

definition call_provider :: "provider_call \<Rightarrow> world \<Rightarrow> world" where
  "call_provider c w = w\<lparr>calls := calls w @ [c]\<rparr>"

subsection \<open>The effect: stream handler and initial fetch\<close>

text \<open>
  The callback given to \<^verbatim>\<open>onAuthStateChange\<close> (lines 29 to 58). The \<^verbatim>\<open>user\<close> it
  tests on a \<^verbatim>\<open>SIGNED_OUT\<close> event is not the value just passed to \<^verbatim>\<open>setUser\<close>
  but the variable of the render in which the effect subscribed the callback. That
  value is the argument \<open>seen\<close>.
\<close>

definition onAuthStateChange_handler ::
  "User option \<Rightarrow> string \<Rightarrow> Session option \<Rightarrow> world \<Rightarrow> world" where
  "onAuthStateChange_handler seen event s w =
     (let w1 = w\<lparr>console := console w @
                  [ConsoleLog ''Auth state change:'' event
                     (map_option (\<lambda>x. user_id (session_user x)) s)]\<rparr>;
          w2 = w1\<lparr>session := s\<rparr>;
          w3 = w2\<lparr>user := map_option session_user s\<rparr>;
          w4 = (if event = ''SIGNED_IN''
                then show_toast \<lparr>title = ''Signed in successfully'',
                       description = ''Welcome back to AgroConnect!'',
                       variant = Default\<rparr> w3
                else w3);
          w5 = (if event = ''SIGNED_OUT''
                then (let w4a = (if s = None \<and> seen \<noteq> None
                                 then show_toast \<lparr>title = ''Signed out successfully'',
                                        description = ''You have been signed out.'',
                                        variant = Default\<rparr> w4
                                 else w4)
                      in removeItem ''favorites'' (removeItem ''cart'' w4a))
                else w4)
      in w5\<lparr>isLoading := False\<rparr>)"

text \<open>The \<^verbatim>\<open>then\<close> handler of \<^verbatim>\<open>getSession()\<close> (lines 62 to 66).\<close>

definition getSession_then :: "Session option \<Rightarrow> world \<Rightarrow> world" where
  "getSession_then s w =
     (w\<lparr>session := s, user := map_option session_user s, isLoading := False\<rparr>)"

subsection \<open>signUp, signIn\<close>

definition signUp :: "string \<Rightarrow> string \<Rightarrow> string \<Rightarrow> unit response \<Rightarrow> world \<Rightarrow> (err + unit) \<times> world" where
  "signUp email password origin resp w =
     (let redirectUrl = origin @ ''/'';
          w1 = call_provider (AuthSignUp email password redirectUrl) w
      in case thrown resp of
           None \<Rightarrow>
             (Inr (), show_toast \<lparr>title = ''Account created successfully'',
                        description = ''Please check your email to verify your account.'',
                        variant = Default\<rparr> w1)
         | Some e \<Rightarrow>
             (Inl e, show_toast \<lparr>title = ''Error signing up'',
                       description = message e,
                       variant = Destructive\<rparr> w1))"

definition signIn :: "string \<Rightarrow> string \<Rightarrow> unit response \<Rightarrow> world \<Rightarrow> (err + unit) \<times> world" where
  "signIn email password resp w =
     (let w1 = call_provider (AuthSignInWithPassword email password) w
      in case thrown resp of
           None \<Rightarrow> (Inr (), w1)
         | Some e \<Rightarrow>
             (Inl e, show_toast \<lparr>title = ''Error signing in'',
                       description = message e,
                       variant = Destructive\<rparr> w1))"

subsection \<open>signOut\<close>

text \<open>
  \<^verbatim>\<open>signOut\<close> suspends once, at \<^verbatim>\<open>await supabase.auth.signOut()\<close>. What runs
  before the suspension is \<open>signOut_begin\<close>, what runs after it, on the state as it
  is by then, is \<open>signOut_resume\<close>; \<open>signOut\<close> is the two with nothing in between.
\<close>

definition signOut_begin :: "world \<Rightarrow> world" where
  "signOut_begin w = call_provider AuthSignOut (w\<lparr>isLoading := True\<rparr>)"

definition signOut_resume :: "unit response \<Rightarrow> world \<Rightarrow> (err + unit) \<times> world" where
  "signOut_resume resp w =
     (let (r, w1) =
            (case thrown resp of
               None \<Rightarrow>
                 (Inr (),
                  removeItem ''favorites'' (removeItem ''cart''
                    (w\<lparr>session := None, user := None\<rparr>)))
             | Some e \<Rightarrow>
                 (Inl e, show_toast \<lparr>title = ''Error signing out'',
                           description = message e,
                           variant = Destructive\<rparr> w))
      in (r, w1\<lparr>isLoading := False\<rparr>))"

definition signOut :: "unit response \<Rightarrow> world \<Rightarrow> (err + unit) \<times> world" where
  "signOut resp w = signOut_resume resp (signOut_begin w)"

subsection \<open>getUserOrders\<close>

text \<open>The query of lines 141 to 156: no filter is added to it.\<close>

definition orders_query :: query where
  "orders_query =
     order_query ''created_at'' False
       (select_columns
          [Col ''id'', Col ''status'', Col ''created_at'', Col ''updated_at'',
           Rel ''order_items''
             [''id'', ''product_id'', ''quantity'', ''price_at_purchase'', ''created_at'']]
          (from_table ''orders''))"

text \<open>
  The provider's query interface is the argument \<open>provider\<close>: what awaiting a query
  gives. The result is \<open>Inr\<close> of the returned array, or \<open>Inl\<close> of an exception
  that leaves the function.
\<close>

definition getUserOrders ::
  "(query \<Rightarrow> order_row list response) \<Rightarrow> world \<Rightarrow> (err + order_row list) \<times> world" where
  "getUserOrders provider w =
     (if user w = None then (Inr [], w)
      else
        (let w1 = call_provider (Query orders_query) w;
             resp = provider orders_query
         in case thrown resp of
              None \<Rightarrow>
                (case resp of
                   Resolved (Some orders) _ \<Rightarrow> (Inr orders, w1)
                 | _ \<Rightarrow> (Inr [], w1))
            | Some e \<Rightarrow>
                (Inr [], show_toast \<lparr>title = ''Error fetching orders'',
                           description = message e,
                           variant = Destructive\<rparr> w1)))"

subsection \<open>createOrder\<close>

text \<open>Decimal digits of a number, as a template literal prints \<^verbatim>\<open>Date.now()\<close>.\<close>

fun decimal :: "nat \<Rightarrow> string" where
  "decimal n =
     (if n < 10 then [''0123456789'' ! n]
      else decimal (n div 10) @ [''0123456789'' ! (n mod 10)])"

text \<open>\<^verbatim>\<open>s.substr(start, len)\<close> for non-negative \<^verbatim>\<open>start\<close>.\<close>

definition substr :: "nat \<Rightarrow> nat \<Rightarrow> string \<Rightarrow> string" where
  "substr start len s = take len (drop start s)"

text \<open>
  The clock, the random number generator and the timer belong to the browser. They
  are arguments: \<open>now\<close> is what \<^verbatim>\<open>Date.now()\<close> gives, \<open>random36\<close> what
  \<^verbatim>\<open>Math.random().toString(36)\<close> gives, \<open>delay\<close> what awaiting the timer's
  promise gives; \<open>Inl\<close> is an exception raised there, which the \<^verbatim>\<open>catch\<close> clause
  of line 182 receives. The argument \<open>items\<close> is not read by the body.
\<close>

definition createOrder ::
  "cart_item list \<Rightarrow> err + nat \<Rightarrow> err + string \<Rightarrow> err + unit \<Rightarrow> world
     \<Rightarrow> (err + string option) \<times> world" where
  "createOrder items now random36 delay w =
     (if user w = None then (Inr None, w)
      else
        (let caught = (\<lambda>e w'. (Inr None,
                         w'\<lparr>console := console w' @ [ConsoleError ''Order creation error:'' e]\<rparr>))
         in case now of
              Inl e \<Rightarrow> caught e w
            | Inr t \<Rightarrow>
                (case random36 of
                   Inl e \<Rightarrow> caught e w
                 | Inr r \<Rightarrow>
                     (let orderId = ''order_'' @ decimal t @ ''_'' @ substr 2 9 r;
                          w1 = w\<lparr>timers := timers w @ [1000]\<rparr>
                      in case delay of
                           Inl e \<Rightarrow> caught e w1
                         | Inr _ \<Rightarrow> (Inr (Some orderId), w1)))))"

subsection \<open>A mount lifecycle\<close>

text \<open>
  Between two suspension points the event loop runs one of the following to
  completion, in any order and any number of times: a stream event, the resolution of
  \<^verbatim>\<open>getSession()\<close>, or a call of an exposed operation (\<^verbatim>\<open>signOut\<close> in its two
  halves). A stream event comes with the \<^verbatim>\<open>user\<close> that the subscribed callback
  holds: the effect subscribes the callback anew only after a render that changes
  \<^verbatim>\<open>user\<close>, so that value may be older than the state the event arrives in, and a
  lifecycle may give it any value.
\<close>

datatype step =
    StreamEvent "User option" string "Session option"
  | GetSessionResolved "Session option"
  | SignUp string string string "unit response"
  | SignIn string string "unit response"
  | SignOutBegin
  | SignOutResume "unit response"
  | GetUserOrders "query \<Rightarrow> order_row list response"
  | CreateOrder "cart_item list" "err + nat" "err + string" "err + unit"

fun exec :: "step \<Rightarrow> world \<Rightarrow> world" where
  "exec (StreamEvent seen event s) w = onAuthStateChange_handler seen event s w"
| "exec (GetSessionResolved s) w = getSession_then s w"
| "exec (SignUp email password origin resp) w = snd (signUp email password origin resp w)"
| "exec (SignIn email password resp) w = snd (signIn email password resp w)"
| "exec SignOutBegin w = signOut_begin w"
| "exec (SignOutResume resp) w = snd (signOut_resume resp w)"
| "exec (GetUserOrders provider) w = snd (getUserOrders provider w)"
| "exec (CreateOrder items now random36 delay) w = snd (createOrder items now random36 delay w)"

text \<open>The states a lifecycle passes through, one after each step.\<close>

fun execs :: "step list \<Rightarrow> world \<Rightarrow> world list" where
  "execs [] w = []"
| "execs (s # ss) w = exec s w # execs ss (exec s w)"

subsection \<open>Vocabulary of the properties\<close>


text \<open>
  The values of the loading flag along a lifecycle, and the number of times the flag
  goes from true to false (\<open>falls\<close>) and from false to true (\<open>rises\<close>).
\<close>

definition loading_history :: "step list \<Rightarrow> world \<Rightarrow> bool list" where
  "loading_history steps w = map isLoading (w # execs steps w)"

fun falls :: "bool list \<Rightarrow> nat" where
  "falls (a # b # bs) = (if a \<and> \<not> b then 1 else 0) + falls (b # bs)"
| "falls _ = 0"

fun rises :: "bool list \<Rightarrow> nat" where
  "rises (a # b # bs) = (if \<not> a \<and> b then 1 else 0) + rises (b # bs)"
| "rises _ = 0"

text \<open>The two halves of a \<^verbatim>\<open>signOut()\<close> call; the two steps of the effect.\<close>

fun is_signOut :: "step \<Rightarrow> bool" where
  "is_signOut SignOutBegin = True"
| "is_signOut (SignOutResume _) = True"
| "is_signOut _ = False"

fun is_stream_or_fetch :: "step \<Rightarrow> bool" where
  "is_stream_or_fetch (StreamEvent _ _ _) = True"
| "is_stream_or_fetch (GetSessionResolved _) = True"
| "is_stream_or_fetch _ = False"

subsection \<open>Example values\<close>

definition alice :: User where
  "alice = \<lparr>user_id = ''u-alice''\<rparr>"

definition bob :: User where
  "bob = \<lparr>user_id = ''u-bob''\<rparr>"

definition alice_session :: Session where
  "alice_session = \<lparr>access_token = ''t-alice'', session_user = alice\<rparr>"

definition bob_session :: Session where
  "bob_session = \<lparr>access_token = ''t-bob'', session_user = bob\<rparr>"

definition stored :: "string \<rightharpoonup> string" where
  "stored = [''cart'' \<mapsto> ''[1,2]'', ''favorites'' \<mapsto> ''[7]'', ''theme'' \<mapsto> ''dark'']"

definition alice_world :: world where
  "alice_world = getSession_then (Some alice_session) (mount stored)"

definition bob_world :: world where
  "bob_world = getSession_then (Some bob_session) (mount stored)"

definition failed :: "'a response" where
  "failed = Resolved None (Some (Err ''network down''))"

definition older :: order_row where
  "older = \<lparr>order_id = ''o1'', status = ''paid'', created_at = 10, updated_at = 11,
     order_items = []\<rparr>"

definition newer :: order_row where
  "newer = \<lparr>order_id = ''o2'', status = ''sent'', created_at = 20, updated_at = 21,
     order_items = [\<lparr>item_id = ''i1'', product_id = 3, quantity = 2, price_at_purchase = 5,
       item_created_at = 20\<rparr>]\<rparr>"

definition good_provider :: "query \<Rightarrow> order_row list response" where
  "good_provider q = Resolved (Some [newer, older]) None"



definition quiet_steps :: "step list" where
  "quiet_steps =
     [SignIn ''a@b.c'' ''pw'' (Resolved None None),
      StreamEvent None ''SIGNED_IN'' (Some alice_session),
      GetSessionResolved (Some alice_session),
      GetUserOrders good_provider]"

section \<open>Properties\<close>

lemmas op_defs = onAuthStateChange_handler_def getSession_then_def signUp_def signIn_def
  signOut_begin_def signOut_resume_def signOut_def getUserOrders_def createOrder_def
  show_toast_def removeItem_def call_provider_def

subsection \<open>The mirrored user and session\<close>

lemma exec_keeps_mirror:
  "(user w \<noteq> None) = (session w \<noteq> None) \<Longrightarrow>
   (user (exec s w) \<noteq> None) = (session (exec s w) \<noteq> None)"
  by (cases s) (auto simp: op_defs Let_def split: option.splits sum.splits response.splits)

lemma execs_keep_mirror:
  "(user w \<noteq> None) = (session w \<noteq> None) \<Longrightarrow>
   \<forall>w' \<in> set (execs steps w). (user w' \<noteq> None) = (session w' \<noteq> None)"
proof (induction steps arbitrary: w)
  case Nil
  show ?case by simp
next
  case (Cons s steps)
  from Cons.prems have "(user (exec s w) \<noteq> None) = (session (exec s w) \<noteq> None)"
    by (rule exec_keeps_mirror)
  with Cons.IH [of "exec s w"] show ?case by simp
qed

text \<open>
  C1. At mount and after every step of a lifecycle (each stream event, the initial
  session fetch, each call of an exposed operation), the mirrored user is non-null
  exactly when the mirrored session is non-null.
\<close>

theorem user_iff_session:
  "\<forall>w \<in> set (mount ls # execs steps (mount ls)). (user w \<noteq> None) = (session w \<noteq> None)"
  using execs_keep_mirror [of "mount ls" steps] by (simp add: mount_def)

theorem user_iff_session_witness:
  "exec (StreamEvent None ''SIGNED_IN'' (Some alice_session)) (mount stored)
     \<in> set (mount stored # execs [StreamEvent None ''SIGNED_IN'' (Some alice_session),
                StreamEvent (Some alice) ''SIGNED_OUT'' None] (mount stored)) \<and>
   user (exec (StreamEvent None ''SIGNED_IN'' (Some alice_session)) (mount stored)) = Some alice \<and>
   session (exec (StreamEvent None ''SIGNED_IN'' (Some alice_session)) (mount stored))
     = Some alice_session"
  using user_iff_session [of stored "[StreamEvent None ''SIGNED_IN'' (Some alice_session),
                StreamEvent (Some alice) ''SIGNED_OUT'' None]"]
  by (simp add: onAuthStateChange_handler_def show_toast_def alice_session_def)

subsection \<open>signOut, signUp, signIn\<close>

text \<open>
  C2. When the provider reports success, \<^verbatim>\<open>signOut()\<close> returns normally and
  leaves session and user null, the loading flag false and local storage without the
  keys \<^verbatim>\<open>cart\<close> and \<^verbatim>\<open>favorites\<close>, whatever the state was before the call and
  whatever it has become by the time the provider answers.
\<close>

theorem signOut_success:
  "thrown resp = None \<Longrightarrow>
   fst (signOut resp w) = Inr () \<and>
   session (snd (signOut resp w)) = None \<and>
   user (snd (signOut resp w)) = None \<and>
   \<not> isLoading (snd (signOut resp w)) \<and>
   ''cart'' \<notin> dom (localStorage (snd (signOut resp w))) \<and>
   ''favorites'' \<notin> dom (localStorage (snd (signOut resp w))) \<and>
   fst (signOut_resume resp w) = Inr () \<and>
   session (snd (signOut_resume resp w)) = None \<and>
   user (snd (signOut_resume resp w)) = None \<and>
   \<not> isLoading (snd (signOut_resume resp w)) \<and>
   ''cart'' \<notin> dom (localStorage (snd (signOut_resume resp w))) \<and>
   ''favorites'' \<notin> dom (localStorage (snd (signOut_resume resp w)))"
  by (simp add: op_defs)

theorem signOut_success_witness:
  "thrown (Resolved None None :: unit response) = None \<and>
   user alice_world = Some alice \<and> localStorage alice_world ''cart'' = Some ''[1,2]'' \<and>
   fst (signOut (Resolved None None) alice_world) = Inr () \<and>
   session (snd (signOut (Resolved None None) alice_world)) = None \<and>
   user (snd (signOut (Resolved None None) alice_world)) = None \<and>
   \<not> isLoading (snd (signOut (Resolved None None) alice_world)) \<and>
   ''cart'' \<notin> dom (localStorage (snd (signOut (Resolved None None) alice_world))) \<and>
   ''favorites'' \<notin> dom (localStorage (snd (signOut (Resolved None None) alice_world)))"
  using signOut_success [of "Resolved None None" alice_world]
  by (simp add: alice_world_def getSession_then_def mount_def stored_def alice_session_def)

text \<open>
  C3. When the provider call of \<^verbatim>\<open>signUp\<close>, \<^verbatim>\<open>signIn\<close> or \<^verbatim>\<open>signOut\<close>
  fails with the error \<open>e\<close>, the operation adds exactly one notification, which is
  destructive and carries the message of \<open>e\<close>, and throws \<open>e\<close> to its caller.
\<close>

theorem failure_notified_and_rethrown:
  "thrown resp = Some e \<Longrightarrow>
   fst (signUp email password origin resp w) = Inl e \<and>
   toasts (snd (signUp email password origin resp w)) =
     toasts w @ [\<lparr>title = ''Error signing up'', description = message e, variant = Destructive\<rparr>] \<and>
   fst (signIn email password resp w) = Inl e \<and>
   toasts (snd (signIn email password resp w)) =
     toasts w @ [\<lparr>title = ''Error signing in'', description = message e, variant = Destructive\<rparr>] \<and>
   fst (signOut resp w) = Inl e \<and>
   toasts (snd (signOut resp w)) =
     toasts w @ [\<lparr>title = ''Error signing out'', description = message e, variant = Destructive\<rparr>]"
  by (simp add: op_defs)

theorem failure_notified_and_rethrown_witness:
  "thrown (failed :: unit response) = Some (Err ''network down'') \<and>
   signUp ''a@b.c'' ''pw'' ''https://shop.example'' failed (mount stored) =
     (Inl (Err ''network down''),
      (mount stored)\<lparr>toasts := [\<lparr>title = ''Error signing up'', description = ''network down'',
                                   variant = Destructive\<rparr>],
        calls := [AuthSignUp ''a@b.c'' ''pw'' ''https://shop.example/'']\<rparr>) \<and>
   fst (signIn ''a@b.c'' ''pw'' failed (mount stored)) = Inl (Err ''network down'') \<and>
   toasts (snd (signIn ''a@b.c'' ''pw'' failed (mount stored))) =
     [\<lparr>title = ''Error signing in'', description = ''network down'', variant = Destructive\<rparr>] \<and>
   fst (signOut failed (mount stored)) = Inl (Err ''network down'') \<and>
   toasts (snd (signOut failed (mount stored))) =
     [\<lparr>title = ''Error signing out'', description = ''network down'', variant = Destructive\<rparr>]"
  using failure_notified_and_rethrown [of failed "Err ''network down''" "''a@b.c''" "''pw''"
      "''https://shop.example''" "mount stored"]
  by (simp add: failed_def mount_def signUp_def call_provider_def show_toast_def)

text \<open>
  C9. When the provider call of \<^verbatim>\<open>signOut()\<close> fails, session, user and local
  storage are as they were (also the keys \<^verbatim>\<open>cart\<close> and \<^verbatim>\<open>favorites\<close>), the
  loading flag is false, and the error is thrown to the caller.
\<close>

theorem signOut_failure_keeps_state:
  "thrown resp = Some e \<Longrightarrow>
   fst (signOut resp w) = Inl e \<and>
   session (snd (signOut resp w)) = session w \<and>
   user (snd (signOut resp w)) = user w \<and>
   localStorage (snd (signOut resp w)) = localStorage w \<and>
   \<not> isLoading (snd (signOut resp w)) \<and>
   session (snd (signOut_resume resp w)) = session w \<and>
   user (snd (signOut_resume resp w)) = user w \<and>
   localStorage (snd (signOut_resume resp w)) = localStorage w \<and>
   \<not> isLoading (snd (signOut_resume resp w))"
  by (simp add: op_defs)

theorem signOut_failure_keeps_state_witness:
  "thrown (failed :: unit response) = Some (Err ''network down'') \<and>
   fst (signOut failed alice_world) = Inl (Err ''network down'') \<and>
   session (snd (signOut failed alice_world)) = Some alice_session \<and>
   user (snd (signOut failed alice_world)) = Some alice \<and>
   localStorage (snd (signOut failed alice_world)) = stored \<and>
   \<not> isLoading (snd (signOut failed alice_world))"
  using signOut_failure_keeps_state [of failed "Err ''network down''" alice_world]
  by (simp add: failed_def alice_world_def getSession_then_def mount_def alice_session_def)

subsection \<open>getUserOrders\<close>

text \<open>
  C4. Called while no user is authenticated, \<^verbatim>\<open>getUserOrders()\<close> returns the empty
  array and leaves everything as it was; in particular no call to the provider is
  made.
\<close>

theorem getUserOrders_no_user:
  "user w = None \<Longrightarrow>
   getUserOrders provider w = (Inr [], w) \<and> calls (snd (getUserOrders provider w)) = calls w"
  by (simp add: getUserOrders_def)

theorem getUserOrders_no_user_witness:
  "user (mount stored) = None \<and>
   getUserOrders good_provider (mount stored) = (Inr [], mount stored) \<and>
   calls (snd (getUserOrders good_provider (mount stored))) = []"
  using getUserOrders_no_user [of "mount stored" good_provider]
  by (simp add: mount_def)





text \<open>
  C10. For any two states with an authenticated user, \<^verbatim>\<open>getUserOrders()\<close> sends
  the provider the same single query, which carries no filter, and returns the same
  result for the same provider answer: nothing of the user enters the request.
\<close>

theorem getUserOrders_same_query:
  "user w1 \<noteq> None \<Longrightarrow> user w2 \<noteq> None \<Longrightarrow>
   calls (snd (getUserOrders provider w1)) = calls w1 @ [Query orders_query] \<and>
   calls (snd (getUserOrders provider w2)) = calls w2 @ [Query orders_query] \<and>
   filters orders_query = [] \<and>
   fst (getUserOrders provider w1) = fst (getUserOrders provider w2)"
  by (auto simp: getUserOrders_def call_provider_def show_toast_def orders_query_def
        order_query_def select_columns_def from_table_def Let_def
        split: option.splits response.splits)

theorem getUserOrders_same_query_witness:
  "user alice_world \<noteq> None \<and> user bob_world \<noteq> None \<and> user alice_world \<noteq> user bob_world \<and>
   calls (snd (getUserOrders good_provider alice_world)) = [Query orders_query] \<and>
   calls (snd (getUserOrders good_provider bob_world)) = [Query orders_query] \<and>
   filters orders_query = [] \<and>
   fst (getUserOrders good_provider alice_world) = fst (getUserOrders good_provider bob_world)"
  using getUserOrders_same_query [of alice_world bob_world good_provider]
  by (simp add: alice_world_def bob_world_def getSession_then_def mount_def
        alice_session_def bob_session_def alice_def bob_def)

subsection \<open>createOrder\<close>

text \<open>
  C6. \<^verbatim>\<open>createOrder(items)\<close> returns null and does nothing when no user is
  authenticated. With a user, and the clock, the random number generator and the
  timer working, it starts one timer of 1000 ms and returns the string
  \<^verbatim>\<open>order_<time>_<random>\<close>. It never throws: an exception inside the body gives
  null. It never calls the provider nor writes to local storage.
\<close>

theorem createOrder_stub:
  "(user w = None \<longrightarrow> createOrder items now random36 delay w = (Inr None, w)) \<and>
   (user w \<noteq> None \<longrightarrow>
      createOrder items (Inr t) (Inr r) (Inr ()) w =
        (Inr (Some (''order_'' @ decimal t @ ''_'' @ substr 2 9 r)),
         w\<lparr>timers := timers w @ [1000]\<rparr>)) \<and>
   (\<exists>v. fst (createOrder items now random36 delay w) = Inr v) \<and>
   ((\<exists>e. now = Inl e \<or> random36 = Inl e \<or> delay = Inl e) \<longrightarrow>
      fst (createOrder items now random36 delay w) = Inr None) \<and>
   calls (snd (createOrder items now random36 delay w)) = calls w \<and>
   localStorage (snd (createOrder items now random36 delay w)) = localStorage w"
  by (auto simp: createOrder_def Let_def split: sum.splits)

theorem createOrder_stub_witness:
  "user (mount stored) = None \<and>
   createOrder [] (Inr 1700000000000) (Inr ''0.4fzyo82mvyr'') (Inr ()) (mount stored)
     = (Inr None, mount stored) \<and>
   user alice_world \<noteq> None \<and>
   createOrder [] (Inr 1700000000000) (Inr ''0.4fzyo82mvyr'') (Inr ()) alice_world
     = (Inr (Some ''order_1700000000000_4fzyo82mv''), alice_world\<lparr>timers := [1000]\<rparr>) \<and>
   fst (createOrder [] (Inr 1700000000000) (Inr ''0.4fzyo82mvyr'') (Inl (Err ''x'')) alice_world)
     = Inr None"
  using createOrder_stub [of "mount stored" "[]" "Inr 1700000000000" "Inr ''0.4fzyo82mvyr''"
      "Inr ()" 1700000000000 "''0.4fzyo82mvyr''"]
    createOrder_stub [of alice_world "[]" "Inr 1700000000000" "Inr ''0.4fzyo82mvyr''"
      "Inr ()" 1700000000000 "''0.4fzyo82mvyr''"]
    createOrder_stub [of alice_world "[]" "Inr 1700000000000" "Inr ''0.4fzyo82mvyr''"
      "Inl (Err ''x'')"]
  by (simp add: alice_world_def getSession_then_def mount_def substr_def)

subsection \<open>The stream handler on SIGNED_OUT\<close>

text \<open>
  C7. On a \<^verbatim>\<open>SIGNED_OUT\<close> event the handler shows the sign-out notification
  exactly when the event's session is null and the user it has seen (the local user
  of the render before the event) is non-null, and no other notification; it removes
  the keys \<^verbatim>\<open>cart\<close> and \<^verbatim>\<open>favorites\<close> from local storage in every case; and it
  leaves the loading flag false.
\<close>

theorem signed_out_event:
  "toasts (onAuthStateChange_handler seen ''SIGNED_OUT'' s w) =
     toasts w @
       (if s = None \<and> seen \<noteq> None
        then [\<lparr>title = ''Signed out successfully'', description = ''You have been signed out.'',
                variant = Default\<rparr>]
        else []) \<and>
   localStorage (onAuthStateChange_handler seen ''SIGNED_OUT'' s w) =
     (localStorage w)(''cart'' := None, ''favorites'' := None) \<and>
   \<not> isLoading (onAuthStateChange_handler seen ''SIGNED_OUT'' s w)"
  by (simp add: op_defs Let_def)

theorem signed_out_event_witness:
  "toasts (onAuthStateChange_handler (Some alice) ''SIGNED_OUT'' None alice_world) =
     [\<lparr>title = ''Signed out successfully'', description = ''You have been signed out.'',
       variant = Default\<rparr>] \<and>
   toasts (onAuthStateChange_handler None ''SIGNED_OUT'' None (mount stored)) = [] \<and>
   toasts (onAuthStateChange_handler (Some alice) ''SIGNED_OUT'' (Some bob_session) alice_world)
     = [] \<and>
   localStorage (onAuthStateChange_handler (Some alice) ''SIGNED_OUT'' (Some bob_session)
     alice_world) = [''theme'' \<mapsto> ''dark'']"
  using signed_out_event [of "Some alice" None alice_world]
    signed_out_event [of None None "mount stored"]
    signed_out_event [of "Some alice" "Some bob_session" alice_world]
  by (auto simp: alice_world_def getSession_then_def mount_def stored_def)

subsection \<open>The loading flag\<close>

lemma exec_loading_stays_false:
  "s \<noteq> SignOutBegin \<Longrightarrow> \<not> isLoading w \<Longrightarrow> \<not> isLoading (exec s w)"
  by (cases s) (auto simp: op_defs Let_def split: option.splits sum.splits response.splits)

lemma exec_clears_loading:
  "is_stream_or_fetch s \<Longrightarrow> \<not> isLoading (exec s w)"
  by (cases s) (auto simp: op_defs Let_def)

lemma exec_keeps_loading:
  "\<not> is_stream_or_fetch s \<Longrightarrow> \<not> is_signOut s \<Longrightarrow> isLoading (exec s w) = isLoading w"
  by (cases s) (auto simp: op_defs Let_def split: option.splits sum.splits response.splits)

lemma loading_quiet:
  "\<forall>s \<in> set steps. s \<noteq> SignOutBegin \<Longrightarrow> \<not> isLoading w \<Longrightarrow>
   falls (loading_history steps w) = 0 \<and> rises (loading_history steps w) = 0"
proof (induction steps arbitrary: w)
  case Nil
  show ?case by (simp add: loading_history_def)
next
  case (Cons s steps)
  from Cons.prems have n: "\<not> isLoading (exec s w)"
    by (simp add: exec_loading_stays_false)
  from Cons.prems have "\<forall>s \<in> set steps. s \<noteq> SignOutBegin" by simp
  from Cons.IH [OF this n] Cons.prems(2) n show ?case
    by (simp add: loading_history_def)
qed

lemma loading_once:
  "\<forall>s \<in> set steps. \<not> is_signOut s \<Longrightarrow> \<exists>s \<in> set steps. is_stream_or_fetch s \<Longrightarrow>
   isLoading w \<Longrightarrow>
   falls (loading_history steps w) = 1 \<and> rises (loading_history steps w) = 0"
proof (induction steps arbitrary: w)
  case Nil
  then show ?case by simp
next
  case (Cons s steps)
  from Cons.prems(1) have ns: "\<not> is_signOut s" and nss: "\<forall>s \<in> set steps. \<not> is_signOut s"
    by simp_all
  show ?case
  proof (cases "is_stream_or_fetch s")
    case True
    then have n: "\<not> isLoading (exec s w)" by (rule exec_clears_loading)
    from nss have "\<forall>s \<in> set steps. s \<noteq> SignOutBegin" by auto
    from loading_quiet [OF this n] n Cons.prems(3) show ?thesis
      by (simp add: loading_history_def)
  next
    case False
    with ns have k: "isLoading (exec s w)"
      using Cons.prems(3) by (simp add: exec_keeps_loading)
    from False Cons.prems(2) have "\<exists>s \<in> set steps. is_stream_or_fetch s" by auto
    from Cons.IH [OF nss this k] k Cons.prems(3) show ?thesis
      by (simp add: loading_history_def)
  qed
qed

text \<open>
  C8. In a lifecycle without a \<^verbatim>\<open>signOut()\<close> call in which a stream event or the
  initial session fetch is processed, the loading flag goes from true to false exactly
  once and never from false to true. In any state, the only step that takes the flag
  from false to true is the beginning of a \<^verbatim>\<open>signOut()\<close> call, which sets it to
  true; when that call ends, with success or with failure, the flag is false.
\<close>

theorem loading_flag_lifecycle:
  "((\<forall>s \<in> set steps. \<not> is_signOut s) \<longrightarrow> (\<exists>s \<in> set steps. is_stream_or_fetch s) \<longrightarrow>
      falls (loading_history steps (mount ls)) = 1 \<and>
      rises (loading_history steps (mount ls)) = 0) \<and>
   (\<not> isLoading w \<longrightarrow> isLoading (exec s w) \<longrightarrow> s = SignOutBegin) \<and>
   isLoading (signOut_begin w) \<and>
   \<not> isLoading (snd (signOut_resume resp w)) \<and>
   \<not> isLoading (snd (signOut resp w))"
proof (intro conjI impI)
  assume "\<forall>s \<in> set steps. \<not> is_signOut s" and "\<exists>s \<in> set steps. is_stream_or_fetch s"
  then have "falls (loading_history steps (mount ls)) = 1 \<and>
      rises (loading_history steps (mount ls)) = 0"
    by (rule loading_once) (simp add: mount_def)
  then show "falls (loading_history steps (mount ls)) = 1"
    and "rises (loading_history steps (mount ls)) = 0" by simp_all
next
  assume "\<not> isLoading w" and "isLoading (exec s w)"
  then show "s = SignOutBegin" using exec_loading_stays_false by blast
next
  show "isLoading (signOut_begin w)" by (simp add: op_defs)
  show "\<not> isLoading (snd (signOut_resume resp w))"
    by (simp add: op_defs split: option.splits)
  show "\<not> isLoading (snd (signOut resp w))"
    by (simp add: op_defs split: option.splits)
qed

theorem loading_flag_lifecycle_witness:
  "list_all (\<lambda>s. \<not> is_signOut s) quiet_steps \<and>
   list_ex is_stream_or_fetch quiet_steps \<and>
   loading_history quiet_steps (mount stored) = [True, True, False, False, False] \<and>
   falls (loading_history quiet_steps (mount stored)) = 1 \<and>
   rises (loading_history quiet_steps (mount stored)) = 0 \<and>
   \<not> isLoading alice_world \<and> isLoading (exec SignOutBegin alice_world) \<and>
   \<not> isLoading (snd (signOut failed alice_world))"
  using loading_flag_lifecycle [of quiet_steps stored alice_world SignOutBegin failed]
  by (simp add: quiet_steps_def loading_history_def op_defs mount_def alice_world_def
        good_provider_def)

end
